theory Spec2Isabelle
  imports Main
begin

section \<open>The wx viewer of SuperSID (supersid/wxsidviewer.py)\<close>

text \<open>
  The viewer is glue between a GUI toolkit and a controller. The toolkit, the plotting
  library and the controller are not part of the file: what a call into them answers
  (the code a modal dialog returns, whether a call raises) is an argument of the model,
  and what the viewer does to them (status-bar writes, deferred calls, calls of the
  controller and of the plotter) is recorded in the viewer's state.
\<close>

subsection \<open>Exceptions and effects\<close>

text \<open>
  The exceptions the file names, and \<open>Exception\<close> for any other one, identified by its
  name. \<open>SystemExit\<close> carries the exit code given to \<^verbatim>\<open>exit\<close>.
\<close>

datatype exn =
    PyDeadObjectError
  | PyAssertionError
  | SystemExit int
  | Exception string

text \<open>
  A statement runs on the viewer's state and ends either normally (\<open>None\<close>) or by
  raising (\<open>Some e\<close>); the state it leaves behind is returned in both cases.
\<close>

type_synonym 's stmt = "'s \<Rightarrow> exn option \<times> 's"

definition pass :: "'s stmt" where
  "pass s = (None, s)"

text \<open>Sequencing: the second statement runs only when the first one did not raise.\<close>

definition seq :: "'s stmt \<Rightarrow> 's stmt \<Rightarrow> 's stmt" where
  "seq f g s = (case f s of (Some e, s') \<Rightarrow> (Some e, s') | (None, s') \<Rightarrow> g s')"

text \<open>\<^verbatim>\<open>try: body  except: handler\<close> (the bare \<^verbatim>\<open>except\<close> catches every exception).\<close>

definition try_except :: "'s stmt \<Rightarrow> 's stmt \<Rightarrow> 's stmt" where
  "try_except body handler s =
     (case body s of (Some e, s') \<Rightarrow> handler s' | (None, s') \<Rightarrow> (None, s'))"

text \<open>
  \<^verbatim>\<open>try: body  finally: cleanup\<close>: the cleanup always runs; an exception of the body
  is raised again after it, unless the cleanup raises one of its own.
\<close>

definition try_finally :: "'s stmt \<Rightarrow> 's stmt \<Rightarrow> 's stmt" where
  "try_finally body cleanup s =
     (case body s of
        (Some e, s') \<Rightarrow>
          (case cleanup s' of (Some e', s'') \<Rightarrow> (Some e', s'') | (None, s'') \<Rightarrow> (Some e, s''))
      | (None, s') \<Rightarrow> cleanup s')"

subsection \<open>The toolkit\<close>

text \<open>
  The result codes of the toolkit that the file compares with (\<^verbatim>\<open>wx.YES\<close>,
  \<^verbatim>\<open>wx.NO\<close>, \<^verbatim>\<open>wx.CANCEL\<close>, \<^verbatim>\<open>wx.ID_YES\<close>, \<^verbatim>\<open>wx.ID_OK\<close>). Their values are the
  toolkit's, so they are a parameter.
\<close>

record wx =
  YES :: int
  NO :: int
  CANCEL :: int
  ID_YES :: int
  ID_OK :: int

text \<open>
  A message handed to the viewer is any Python object: a text, or something else.
\<close>

datatype payload = Text string | Object

text \<open>
  The status bar, after \<^verbatim>\<open>SetFieldsCount(2)\<close> of the constructor: two text fields.
  \<^verbatim>\<open>SetStatusText(text, number)\<close> writes field \<open>number\<close>; the toolkit's wrapper
  refuses an argument that is not a text with a \<^verbatim>\<open>TypeError\<close>, and the toolkit asserts
  that the field exists.
\<close>

record statusbar =
  field0 :: string
  field1 :: string

definition SetStatusText :: "payload \<Rightarrow> int \<Rightarrow> statusbar \<Rightarrow> exn + statusbar" where
  "SetStatusText text number sb =
     (case text of
        Object \<Rightarrow> Inl (Exception ''TypeError'')
      | Text t \<Rightarrow>
          (if number = 0 then Inr (sb\<lparr>field0 := t\<rparr>)
           else if number = 1 then Inr (sb\<lparr>field1 := t\<rparr>)
           else Inl PyAssertionError))"

text \<open>
  A call handed to \<^verbatim>\<open>wx.CallAfter\<close>: it is queued and run later on the UI thread. The
  file defers two calls: \<^verbatim>\<open>self.status_display(message)\<close> and
  \<^verbatim>\<open>Publisher().sendMessage(topic, message)\<close>.
\<close>

datatype deferred =
    Call_status_display payload
  | Call_sendMessage string payload

text \<open>The message object a subscriber of the publisher receives.\<close>

record message =
  topic :: string
  data :: payload

subsection \<open>The viewer\<close>

text \<open>
  \<open>status_bar\<close> is the status bar; \<open>call_after\<close> the queue of \<^verbatim>\<open>wx.CallAfter\<close>;
  \<open>subscriptions\<close> the topics \<^verbatim>\<open>updateDisplay\<close> is subscribed to; \<open>draws\<close> counts the
  completed \<^verbatim>\<open>canvas.draw()\<close>; \<open>on_close_calls\<close> counts the calls of the controller's
  \<^verbatim>\<open>on_close\<close>; \<open>plot_filelist_calls\<close> lists the arguments of the plotter's
  \<^verbatim>\<open>plot_filelist\<close>, oldest first.
\<close>

record viewer =
  status_bar :: statusbar
  call_after :: "deferred list"
  subscriptions :: "string list"
  draws :: nat
  on_close_calls :: nat
  plot_filelist_calls :: "string list"

text \<open>
  The constructor. Of the toolkit calls only the icon load is guarded in the source, so
  its outcome \<open>icon\<close> (\<open>Some e\<close> when \<^verbatim>\<open>SetIcon(wx.Icon(...))\<close> raises \<open>e\<close>) is the one
  argument; the guard is \<^verbatim>\<open>try: ... finally: pass\<close>.
\<close>

definition SetIcon :: "exn option \<Rightarrow> viewer stmt" where
  "SetIcon icon v = (icon, v)"

definition CreateStatusBar :: "viewer stmt" where
  "CreateStatusBar v = (None, v\<lparr>status_bar := \<lparr>field0 = [], field1 = []\<rparr>\<rparr>)"

definition subscribe :: "string \<Rightarrow> viewer stmt" where
  "subscribe t v = (None, v\<lparr>subscriptions := subscriptions v @ [t]\<rparr>)"

definition new_frame :: viewer where
  "new_frame = \<lparr>status_bar = \<lparr>field0 = [], field1 = []\<rparr>, call_after = [],
     subscriptions = [], draws = 0, on_close_calls = 0, plot_filelist_calls = []\<rparr>"

definition init :: "exn option \<Rightarrow> exn option \<times> viewer" where
  "init icon =
     seq (try_finally (SetIcon icon) pass)
       (seq CreateStatusBar (subscribe ''update'')) new_frame"

text \<open>\<^verbatim>\<open>status_display(self, message, level=0, field=0)\<close>\<close>

definition status_display :: "payload \<Rightarrow> int \<Rightarrow> int \<Rightarrow> viewer stmt" where
  "status_display msg level field v =
     (if level = 1 then
        (None, v\<lparr>call_after := call_after v @ [Call_status_display msg]\<rparr>)
      else if level = 2 then
        (None, v\<lparr>call_after := call_after v @ [Call_sendMessage ''update'' msg]\<rparr>)
      else
        (case SetStatusText msg field (status_bar v) of
           Inl e \<Rightarrow> (Some e, v)
         | Inr sb \<Rightarrow> (None, v\<lparr>status_bar := sb\<rparr>)))"

text \<open>
  \<^verbatim>\<open>canvas.draw()\<close> belongs to the plotting library: \<open>d\<close> is its outcome.
\<close>

definition canvas_draw :: "exn option \<Rightarrow> viewer stmt" where
  "canvas_draw d v = (case d of Some e \<Rightarrow> (Some e, v) | None \<Rightarrow> (None, v\<lparr>draws := Suc (draws v)\<rparr>))"

definition updateDisplay :: "exn option \<Rightarrow> message \<Rightarrow> viewer stmt" where
  "updateDisplay d msg =
     try_except (seq (canvas_draw d) (status_display (data msg) 0 0)) pass"

text \<open>
  The publisher delivers a message to the subscriber of its topic, and the UI thread
  runs the queued calls one by one.
\<close>

definition sendMessage :: "exn option \<Rightarrow> string \<Rightarrow> payload \<Rightarrow> viewer stmt" where
  "sendMessage d t m v =
     (if t \<in> set (subscriptions v) then updateDisplay d \<lparr>topic = t, data = m\<rparr> v
      else (None, v))"

fun run_deferred :: "exn option \<Rightarrow> deferred \<Rightarrow> viewer stmt" where
  "run_deferred d (Call_status_display m) = status_display m 0 0"
| "run_deferred d (Call_sendMessage t m) = sendMessage d t m"

definition run_next :: "exn option \<Rightarrow> viewer stmt" where
  "run_next d v =
     (case call_after v of
        [] \<Rightarrow> (None, v)
      | c # cs \<Rightarrow> run_deferred d c (v\<lparr>call_after := cs\<rparr>))"

text \<open>
  \<^verbatim>\<open>on_close\<close> is bound to the close event in the constructor, and \<^verbatim>\<open>Close\<close> sends
  that event to the frame.
\<close>

definition on_close :: "viewer stmt" where
  "on_close v = (None, v\<lparr>on_close_calls := Suc (on_close_calls v)\<rparr>)"

definition Close :: "bool \<Rightarrow> viewer stmt" where
  "Close force = on_close"

text \<open>\<^verbatim>\<open>on_exit\<close>: \<open>answer\<close> is what \<^verbatim>\<open>dlg.ShowModal()\<close> returns.\<close>

definition on_exit :: "wx \<Rightarrow> int \<Rightarrow> viewer stmt" where
  "on_exit tk answer =
     seq (status_display (Text ''This is supersid signing off...'') 0 0)
       (if answer = ID_YES tk then Close True else pass)"

text \<open>
  \<^verbatim>\<open>on_plot_files\<close>: \<open>answer\<close> is what \<^verbatim>\<open>filedialog.ShowModal()\<close> returns and
  \<open>filenames\<close> what \<^verbatim>\<open>filedialog.GetFilenames()\<close> returns. The module runs on
  Python 2 with the classic toolkit, where a filename is a unicode text: the list of its
  code points. \<^verbatim>\<open>str\<close> of a unicode text encodes it in ASCII, and raises
  \<^verbatim>\<open>UnicodeEncodeError\<close> when a code point is not below 128; on the byte string that
  the concatenation builds, the outer \<^verbatim>\<open>str\<close> is the identity.
\<close>

type_synonym unicode = "nat list"

definition ascii :: "unicode \<Rightarrow> bool" where
  "ascii u = list_all (\<lambda>c. c < 128) u"

definition text_of :: "unicode \<Rightarrow> string" where
  "text_of u = map char_of u"

definition unicode_of :: "string \<Rightarrow> unicode" where
  "unicode_of s = map of_char s"

definition str :: "unicode \<Rightarrow> exn + string" where
  "str u = (if ascii u then Inr (text_of u) else Inl (Exception ''UnicodeEncodeError''))"

text \<open>
  The \<^verbatim>\<open>for\<close> loop is \<open>add_filenames\<close>; it stops at the first filename on
  which \<^verbatim>\<open>str\<close> raises. \<^verbatim>\<open>s.rstrip(chars)\<close> removes from the end of \<open>s\<close> every
  character that is in \<open>chars\<close>, up to the first one that is not. When the loop raises,
  the exception leaves \<^verbatim>\<open>on_plot_files\<close> and the plotter is not called.
\<close>

fun add_filenames :: "string \<Rightarrow> unicode list \<Rightarrow> exn + string" where
  "add_filenames filelist [] = Inr filelist"
| "add_filenames filelist (u_filename # rest) =
     (case str u_filename of
        Inl e \<Rightarrow> Inl e
      | Inr s \<Rightarrow> add_filenames (filelist @ ''../Data/'' @ s @ '','') rest)"

definition rstrip :: "string \<Rightarrow> string \<Rightarrow> string" where
  "rstrip chars s = rev (dropWhile (\<lambda>c. c \<in> set chars) (rev s))"

definition filelist_of :: "unicode list \<Rightarrow> exn + string" where
  "filelist_of filenames =
     (case add_filenames [] filenames of
        Inl e \<Rightarrow> Inl e
      | Inr filelist \<Rightarrow> Inr (rstrip '','' filelist))"

definition plot_filelist :: "string \<Rightarrow> viewer stmt" where
  "plot_filelist filelist v =
     (None, v\<lparr>plot_filelist_calls := plot_filelist_calls v @ [filelist]\<rparr>)"

definition on_plot_files :: "wx \<Rightarrow> int \<Rightarrow> unicode list \<Rightarrow> viewer stmt" where
  "on_plot_files tk answer filenames v =
     (if answer = ID_OK tk then
        (case filelist_of filenames of
           Inl e \<Rightarrow> (Some e, v)
         | Inr filelist \<Rightarrow> plot_filelist filelist v)
      else pass v)"

text \<open>\<^verbatim>\<open>display_message\<close>: \<open>status\<close> is what \<^verbatim>\<open>wx.MessageBox\<close> returns.\<close>

definition display_message :: "wx \<Rightarrow> int \<Rightarrow> int" where
  "display_message tk status =
     (if status = YES tk then 1
      else if status = NO tk then 1
      else if status = CANCEL tk then 1
      else 0)"

text \<open>
  \<^verbatim>\<open>get_psd\<close>: \<open>psd\<close> is the \<^verbatim>\<open>psd\<close> routine of the axes, which returns the pair of
  power values and frequency bins or raises. \<^verbatim>\<open>exit(3)\<close> raises \<open>SystemExit 3\<close>,
  which ends the process with exit code 3.
\<close>

definition get_psd ::
  "('d \<Rightarrow> 'n \<Rightarrow> 'f \<Rightarrow> exn + 'p \<times> 'q) \<Rightarrow> 'd \<Rightarrow> 'n \<Rightarrow> 'f \<Rightarrow> exn + 'p \<times> 'q" where
  "get_psd psd data' NFFT FS =
     (case psd data' NFFT FS of
        Inr (Pxx, freqs) \<Rightarrow> Inr (Pxx, freqs)
      | Inl e \<Rightarrow> (if e = PyDeadObjectError then Inl (SystemExit 3) else Inl e))"

text \<open>
  A call made as a statement, its value dropped: it raises what the call raises.
\<close>

definition expr :: "exn + 'a \<Rightarrow> 's stmt" where
  "expr r s = (case r of Inl e \<Rightarrow> (Some e, s) | Inr x \<Rightarrow> (None, s))"

text \<open>The \<^verbatim>\<open>psd\<close> routine of axes that have been destroyed.\<close>

definition dead_psd :: "nat list \<Rightarrow> nat \<Rightarrow> nat \<Rightarrow> exn + nat list \<times> nat list" where
  "dead_psd d n f = Inl PyDeadObjectError"

subsection \<open>The spec's words\<close>

text \<open>
  The filelist as the spec words it: every filename with the data-directory prefix, and
  single commas between them.
\<close>

definition with_prefix :: "string \<Rightarrow> string" where
  "with_prefix u = ''../Data/'' @ u"

fun comma_join :: "string list \<Rightarrow> string" where
  "comma_join [] = []"
| "comma_join [x] = x"
| "comma_join (x # y # ys) = x @ '','' @ comma_join (y # ys)"

section \<open>Properties\<close>

subsection \<open>The guards\<close>

lemma try_except_pass: "fst (try_except body pass s) = None"
  by (simp add: try_except_def pass_def split: prod.split option.split)

lemma try_finally_pass: "try_finally body pass = body"
  by (rule ext) (simp add: try_finally_def pass_def split: prod.split option.split)

lemma init_ok:
  "init None = (None, new_frame\<lparr>subscriptions := [''update'']\<rparr>)"
  by (simp add: init_def seq_def try_finally_def SetIcon_def pass_def CreateStatusBar_def
      subscribe_def new_frame_def)

text \<open>
  C1 (the code departs from it): an exception of the icon load is not swallowed. The
  guard of the constructor is \<^verbatim>\<open>try: ... finally: pass\<close>, which raises the exception
  again: whatever \<open>e\<close> the icon load raises, the constructor raises \<open>e\<close>, and neither the
  status bar is created nor the subscription made.
\<close>

theorem init_icon_error_propagates:
  "init (Some e) = (Some e, new_frame)"
  by (simp add: init_def seq_def try_finally_def SetIcon_def pass_def)

text \<open>
  The body that \<^verbatim>\<open>updateDisplay\<close> guards does raise: when the redraw raises, and when
  the payload is not a text.
\<close>

lemma updateDisplay_body_raises:
  "fst (seq (canvas_draw (Some e)) (status_display (data msg) 0 0) v) = Some e"
  "fst (seq (canvas_draw None) (status_display Object 0 0) v) = Some (Exception ''TypeError'')"
  by (simp_all add: seq_def canvas_draw_def status_display_def SetStatusText_def)

text \<open>
  C6: \<^verbatim>\<open>updateDisplay\<close> never raises: whatever the redraw raises (\<open>d\<close>) and whatever
  the message carries, it ends normally.
\<close>

theorem updateDisplay_never_raises:
  "fst (updateDisplay d msg v) = None"
  by (simp add: updateDisplay_def try_except_pass)

theorem updateDisplay_never_raises_witness:
  "fst (updateDisplay (Some PyDeadObjectError) \<lparr>topic = ''update'', data = Text ''x''\<rparr> new_frame) = None
   \<and> fst (updateDisplay None \<lparr>topic = ''update'', data = Object\<rparr> new_frame) = None"
  using updateDisplay_never_raises
    [of "Some PyDeadObjectError" "\<lparr>topic = ''update'', data = Text ''x''\<rparr>" new_frame]
    updateDisplay_never_raises [of None "\<lparr>topic = ''update'', data = Object\<rparr>" new_frame]
  by simp

subsection \<open>display_message\<close>

text \<open>
  C2: \<^verbatim>\<open>display_message\<close> answers 1 when the toolkit's result code is YES, NO or
  CANCEL, and 0 for every other result code.
\<close>

theorem display_message_outcome:
  "display_message tk status =
     (if status = YES tk \<or> status = NO tk \<or> status = CANCEL tk then 1 else 0)"
  by (simp add: display_message_def)

theorem display_message_outcome_witness:
  "display_message \<lparr>YES = 2, NO = 8, CANCEL = 16, ID_YES = 5103, ID_OK = 5100\<rparr> 2 = 1
   \<and> display_message \<lparr>YES = 2, NO = 8, CANCEL = 16, ID_YES = 5103, ID_OK = 5100\<rparr> 8 = 1
   \<and> display_message \<lparr>YES = 2, NO = 8, CANCEL = 16, ID_YES = 5103, ID_OK = 5100\<rparr> 16 = 1
   \<and> display_message \<lparr>YES = 2, NO = 8, CANCEL = 16, ID_YES = 5103, ID_OK = 5100\<rparr> 4 = 0"
  using display_message_outcome
    [of "\<lparr>YES = 2, NO = 8, CANCEL = 16, ID_YES = 5103, ID_OK = 5100\<rparr>" 2]
    display_message_outcome
    [of "\<lparr>YES = 2, NO = 8, CANCEL = 16, ID_YES = 5103, ID_OK = 5100\<rparr>" 8]
    display_message_outcome
    [of "\<lparr>YES = 2, NO = 8, CANCEL = 16, ID_YES = 5103, ID_OK = 5100\<rparr>" 16]
    display_message_outcome
    [of "\<lparr>YES = 2, NO = 8, CANCEL = 16, ID_YES = 5103, ID_OK = 5100\<rparr>" 4]
  by simp

subsection \<open>status_display\<close>

text \<open>
  C5: \<^verbatim>\<open>status_display\<close> dispatches on the level. At level 0 a text is written to the
  given field (0 or 1) of the status bar and nothing is queued; at level 2 the message is
  queued for the UI thread as a \<^verbatim>\<open>sendMessage\<close> on the channel \<open>update\<close>, whatever the
  state of the caller; at level 1 the call itself is queued for the UI thread. At levels
  1 and 2 the status bar is not written by the call.
\<close>

theorem status_display_dispatch:
  "(field = 0 \<or> field = 1 \<longrightarrow>
      status_display (Text m) 0 field v =
        (None, v\<lparr>status_bar :=
           (if field = 0 then (status_bar v)\<lparr>field0 := m\<rparr> else (status_bar v)\<lparr>field1 := m\<rparr>)\<rparr>))
   \<and> status_display msg 2 field v =
        (None, v\<lparr>call_after := call_after v @ [Call_sendMessage ''update'' msg]\<rparr>)
   \<and> status_display msg 1 field v =
        (None, v\<lparr>call_after := call_after v @ [Call_status_display msg]\<rparr>)"
  by (simp add: status_display_def SetStatusText_def)

theorem status_display_dispatch_witness:
  "status_display (Text ''ready'') 0 1 new_frame =
     (None, new_frame\<lparr>status_bar := \<lparr>field0 = [], field1 = ''ready''\<rparr>\<rparr>)
   \<and> status_display (Text ''ready'') 2 1 new_frame =
     (None, new_frame\<lparr>call_after := [Call_sendMessage ''update'' (Text ''ready'')]\<rparr>)
   \<and> status_display (Text ''ready'') 1 1 new_frame =
     (None, new_frame\<lparr>call_after := [Call_status_display (Text ''ready'')]\<rparr>)"
  using status_display_dispatch [of 1 "''ready''" new_frame "Text ''ready''"]
  by (simp add: new_frame_def)

text \<open>
  C9: at level 1 the field is dropped. The result of the call does not depend on the
  field, the queued call carries the message alone, and when the UI thread runs it the
  text is written to field 0, whatever field was given; field 1 keeps its text.
\<close>

theorem status_display_level1_drops_field:
  "status_display msg 1 f v = status_display msg 1 0 v
   \<and> call_after (snd (status_display msg 1 f v)) = call_after v @ [Call_status_display msg]
   \<and> (call_after v = [] \<longrightarrow>
        run_next d (snd (status_display (Text m) 1 f v)) =
          (None, v\<lparr>status_bar := (status_bar v)\<lparr>field0 := m\<rparr>\<rparr>))"
  by (simp add: status_display_def SetStatusText_def run_next_def)

theorem status_display_level1_drops_field_witness:
  "call_after new_frame = []
   \<and> run_next None (snd (status_display (Text ''ready'') 1 1 new_frame)) =
       (None, new_frame\<lparr>status_bar := \<lparr>field0 = ''ready'', field1 = []\<rparr>\<rparr>)"
proof -
  have "call_after new_frame = [] \<longrightarrow>
      run_next None (snd (status_display (Text ''ready'') 1 1 new_frame)) =
        (None, new_frame\<lparr>status_bar := (status_bar new_frame)\<lparr>field0 := ''ready''\<rparr>\<rparr>)"
    using status_display_level1_drops_field
      [where v = new_frame and d = None and m = "''ready''" and f = 1 and msg = "Text ''ready''"]
    by blast
  moreover have "call_after new_frame = []"
    by (simp add: new_frame_def)
  ultimately show ?thesis
    by (simp add: new_frame_def)
qed

text \<open>
  What level 2 leads to: when the UI thread runs the queued \<^verbatim>\<open>sendMessage\<close>, the
  subscribed \<^verbatim>\<open>updateDisplay\<close> redraws and writes the text to field 0.
\<close>

lemma status_display_level2_delivery:
  "call_after v = [] \<Longrightarrow> ''update'' \<in> set (subscriptions v) \<Longrightarrow>
   run_next None (snd (status_display (Text m) 2 f v)) =
     (None, v\<lparr>draws := Suc (draws v), status_bar := (status_bar v)\<lparr>field0 := m\<rparr>\<rparr>)"
  by (simp add: status_display_def run_next_def sendMessage_def updateDisplay_def
      try_except_def seq_def canvas_draw_def SetStatusText_def)

subsection \<open>Quit\<close>

text \<open>
  C8: the Quit handler calls the controller's \<^verbatim>\<open>on_close\<close> if and only if the
  confirmation dialog answers yes: on yes the frame is closed, the close event runs
  \<^verbatim>\<open>on_close\<close>, which calls the controller once; on any other answer the controller is
  not called. The handler itself does not raise.
\<close>

theorem on_exit_calls_on_close_iff_yes:
  "fst (on_exit tk answer v) = None
   \<and> (answer = ID_YES tk \<longrightarrow>
        on_close_calls (snd (on_exit tk answer v)) = Suc (on_close_calls v))
   \<and> (answer \<noteq> ID_YES tk \<longrightarrow>
        on_close_calls (snd (on_exit tk answer v)) = on_close_calls v)"
  by (simp add: on_exit_def seq_def status_display_def SetStatusText_def Close_def
      on_close_def pass_def)

theorem on_exit_calls_on_close_iff_yes_witness:
  "on_close_calls (snd (on_exit
      \<lparr>YES = 2, NO = 8, CANCEL = 16, ID_YES = 5103, ID_OK = 5100\<rparr> 5103 new_frame)) = 1
   \<and> on_close_calls (snd (on_exit
      \<lparr>YES = 2, NO = 8, CANCEL = 16, ID_YES = 5103, ID_OK = 5100\<rparr> 5104 new_frame)) = 0"
  using on_exit_calls_on_close_iff_yes
    [of "\<lparr>YES = 2, NO = 8, CANCEL = 16, ID_YES = 5103, ID_OK = 5100\<rparr>" 5103 new_frame]
    on_exit_calls_on_close_iff_yes
    [of "\<lparr>YES = 2, NO = 8, CANCEL = 16, ID_YES = 5103, ID_OK = 5100\<rparr>" 5104 new_frame]
  by (simp add: new_frame_def)

subsection \<open>get_psd\<close>

text \<open>
  C7 (as stated it fails: \<^verbatim>\<open>exit(3)\<close> raises \<open>SystemExit 3\<close>, an exception like
  any other, and does not end the process by itself). Here the call is made under a bare
  \<^verbatim>\<open>except\<close>, the guard that \<^verbatim>\<open>updateDisplay\<close> has: the exit is swallowed, the
  next statement runs and the program goes on.
\<close>

theorem get_psd_exit_caught_counterexample:
  "get_psd dead_psd [1, 2] 3 2 = Inl (SystemExit 3)
   \<and> seq (try_except (expr (get_psd dead_psd [1, 2] 3 2)) pass) on_close new_frame =
       (None, new_frame\<lparr>on_close_calls := 1\<rparr>)"
  by (simp add: get_psd_def dead_psd_def seq_def try_except_def expr_def pass_def
      on_close_def new_frame_def)

text \<open>
  C7, amended: \<^verbatim>\<open>get_psd\<close> returns the pair of power values and frequency bins that
  the routine of the axes computes when that routine succeeds; when the routine raises
  the dead-object error, \<^verbatim>\<open>get_psd\<close> does not return: it raises \<open>SystemExit\<close> with
  exit code 3 (which ends the process with that code only where no caller catches it).
\<close>

theorem get_psd_result:
  "(psd d n f = Inr (Pxx, freqs) \<longrightarrow> get_psd psd d n f = Inr (Pxx, freqs))
   \<and> (psd d n f = Inl PyDeadObjectError \<longrightarrow> get_psd psd d n f = Inl (SystemExit 3))"
  by (simp add: get_psd_def)

theorem get_psd_result_witness:
  "get_psd (\<lambda>d n f. if d = [] then Inl PyDeadObjectError else Inr (map (\<lambda>x. x * n) d, [0 ..< f]))
      [1, 2 :: nat] (3 :: nat) (2 :: nat) = Inr ([3, 6], [0, 1])
   \<and> get_psd (\<lambda>d n f. if d = [] then Inl PyDeadObjectError else Inr (map (\<lambda>x. x * n) d, [0 ..< f]))
      ([] :: nat list) (3 :: nat) (2 :: nat) = Inl (SystemExit 3)"
  using get_psd_result
      [of "\<lambda>d n f. if d = [] then Inl PyDeadObjectError else Inr (map (\<lambda>x. x * n) d, [0 ..< f])"
        "[1, 2 :: nat]" 3 2 "[3, 6]" "[0, 1]"]
    get_psd_result
      [of "\<lambda>d n f. if d = [] then Inl PyDeadObjectError else Inr (map (\<lambda>x. x * n) d, [0 ..< f])"
        "[] :: nat list" 3 2 "[3, 6]" "[0, 1]"]
  by (simp add: upt_rec)

subsection \<open>The filelist of on_plot_files\<close>

text \<open>Strings: \<^verbatim>\<open>rstrip\<close> and the comma join.\<close>

lemma comma_join_snoc:
  "comma_join (xs @ [y]) = (if xs = [] then y else comma_join xs @ '','' @ y)"
  by (induction xs rule: comma_join.induct) simp_all

lemma concat_comma_join:
  "fs \<noteq> [] \<Longrightarrow> concat (map (\<lambda>s. with_prefix s @ '','') fs) = comma_join (map with_prefix fs) @ '',''"
  by (induction fs rule: induct_list012) simp_all

lemma comma_join_last:
  "names \<noteq> [] \<Longrightarrow> last names \<noteq> [] \<Longrightarrow>
   comma_join names \<noteq> [] \<and> last (comma_join names) = last (last names)"
  by (induction names rule: comma_join.induct) simp_all

lemma rstrip_append_stripped:
  "set ys \<subseteq> set chars \<Longrightarrow> rstrip chars (xs @ ys) = rstrip chars xs"
  by (auto simp: rstrip_def dropWhile_append)

lemma rstrip_append_kept:
  assumes "xs \<noteq> []" and "last xs \<notin> set chars"
  shows "rstrip chars (xs @ ys) = xs @ rstrip chars ys"
proof -
  from assms obtain zs z where xs: "xs = zs @ [z]" and z: "z \<notin> set chars"
    by (cases xs rule: rev_cases) auto
  show ?thesis
    by (simp add: xs z rstrip_def dropWhile_append)
qed

lemma rstrip_no_trailing: "rstrip chars s = [] \<or> last (rstrip chars s) \<notin> set chars"
proof (cases "dropWhile (\<lambda>c. c \<in> set chars) (rev s) = []")
  case True
  then show ?thesis by (simp add: rstrip_def)
next
  case False
  then have "hd (dropWhile (\<lambda>c. c \<in> set chars) (rev s)) \<notin> set chars"
    using hd_dropWhile [of "\<lambda>c. c \<in> set chars" "rev s"] by simp
  with False show ?thesis by (simp add: rstrip_def last_rev)
qed

lemma rstrip_comma_join:
  assumes "fs \<noteq> []"
  shows "rstrip '','' (comma_join (map with_prefix fs) @ '','') =
    comma_join (map with_prefix (butlast fs @ [rstrip '','' (last fs)]))"
proof -
  obtain us u where f: "fs = us @ [u]"
    using assms by (cases fs rule: rev_cases) auto
  define front where
    "front = (if us = [] then [] else comma_join (map with_prefix us) @ '','') @ ''../Data/''"
  have joined: "comma_join (map with_prefix (us @ [w])) = front @ w" for w
    by (simp add: front_def comma_join_snoc with_prefix_def)
  have front: "front \<noteq> []" "last front \<notin> set '',''"
    by (simp_all add: front_def)
  have "rstrip '','' (comma_join (map with_prefix fs) @ '','') = rstrip '','' (front @ u)"
    by (simp only: f joined rstrip_append_stripped [of "'',''" "'',''"] subset_refl)
  also have "\<dots> = front @ rstrip '','' u"
    using front by (rule rstrip_append_kept)
  also have "\<dots> = comma_join (map with_prefix (us @ [rstrip '','' u]))"
    by (simp only: joined)
  finally show ?thesis by (simp add: f)
qed

text \<open>
  The loop: it raises when a filename is not ASCII; otherwise, on a non-empty selection,
  it builds the comma join of the prefixed filenames followed by one comma.
\<close>

lemma add_filenames_concat:
  "add_filenames acc names =
     (if list_all ascii names
      then Inr (acc @ concat (map (\<lambda>s. with_prefix s @ '','') (map text_of names)))
      else Inl (Exception ''UnicodeEncodeError''))"
  by (induction names arbitrary: acc) (simp_all add: str_def with_prefix_def)

lemma add_filenames_join:
  "filenames \<noteq> [] \<Longrightarrow> list_all ascii filenames \<Longrightarrow>
   add_filenames [] filenames = Inr (comma_join (map with_prefix (map text_of filenames)) @ '','')"
  using concat_comma_join [of "map text_of filenames"]
  by (simp add: add_filenames_concat)

lemma filelist_of_not_ascii:
  "\<not> list_all ascii filenames \<Longrightarrow> filelist_of filenames = Inl (Exception ''UnicodeEncodeError'')"
  by (simp add: filelist_of_def add_filenames_concat)

lemma filelist_of_join:
  assumes "filenames \<noteq> []" and "list_all ascii filenames"
  shows "filelist_of filenames =
    Inr (comma_join (map with_prefix
      (butlast (map text_of filenames) @ [rstrip '','' (text_of (last filenames))])))"
  using assms rstrip_comma_join [of "map text_of filenames"]
  by (simp add: filelist_of_def add_filenames_join last_map)

lemma filelist_of_no_trailing_comma:
  "filelist_of filenames = Inr s \<Longrightarrow> s = [] \<or> last s \<noteq> CHR '',''"
  using rstrip_no_trailing [of "'',''"]
  by (auto simp: filelist_of_def split: sum.splits)

lemma text_of_last:
  "u \<noteq> [] \<Longrightarrow> text_of u \<noteq> [] \<and> last (text_of u) = char_of (last u)"
  by (simp add: text_of_def last_map)

lemma char_of_comma: "char_of (44 :: nat) = CHR '',''"
proof -
  have "of_char (CHR '','') = (44 :: nat)"
    by simp
  then show ?thesis
    by (metis char_of_char)
qed

lemma ascii_comma:
  assumes "ascii u" and "u \<noteq> []"
  shows "last (text_of u) = CHR '','' \<longleftrightarrow> last u = 44"
proof
  assume "last (text_of u) = CHR '',''"
  then have "char_of (last u) = CHR '',''"
    using assms(2) by (simp add: text_of_last)
  then have "of_char (char_of (last u)) = (of_char (CHR '','') :: nat)"
    by (rule arg_cong)
  moreover have "last u < 128"
    using assms by (simp add: ascii_def list_all_iff)
  ultimately show "last u = 44"
    by simp
next
  assume "last u = 44"
  then show "last (text_of u) = CHR '',''"
    using assms(2) char_of_comma by (simp add: text_of_last)
qed

lemma on_plot_files_ok:
  "on_plot_files tk (ID_OK tk) filenames v =
     (case filelist_of filenames of
        Inl e \<Rightarrow> (Some e, v)
      | Inr filelist \<Rightarrow>
          (None, v\<lparr>plot_filelist_calls := plot_filelist_calls v @ [filelist]\<rparr>))"
  by (simp add: on_plot_files_def plot_filelist_def split: sum.split)

text \<open>A filename written as a string of the theory: its code points and its text.\<close>

lemma text_of_unicode_of: "text_of (unicode_of s) = s"
  by (simp add: text_of_def unicode_of_def)

lemma ascii_unicode_of: "ascii (unicode_of s) = list_all (\<lambda>c. (of_char c :: nat) < 128) s"
  by (simp add: ascii_def unicode_of_def list_all_iff)

lemma unicode_of_Nil: "unicode_of s = [] \<longleftrightarrow> s = []"
  by (simp add: unicode_of_def)

lemma last_unicode_of: "s \<noteq> [] \<Longrightarrow> last (unicode_of s) = of_char (last s)"
  by (simp add: unicode_of_def last_map)

text \<open>
  Where every filename is ASCII and the last one does not end in a comma, the string
  handed to the plotter is the comma join of the prefixed filenames: for \<open>a.csv\<close>,
  \<open>b.csv\<close> it is \<open>../Data/a.csv,../Data/b.csv\<close>. A filename that is not ASCII makes
  the handler raise, and nothing is handed to the plotter.
\<close>

lemma on_plot_files_join:
  assumes "filenames \<noteq> []" and "list_all ascii filenames"
    and "last filenames = [] \<or> last (last filenames) \<noteq> 44"
  shows "on_plot_files tk (ID_OK tk) filenames v =
     (None, v\<lparr>plot_filelist_calls :=
        plot_filelist_calls v @ [comma_join (map with_prefix (map text_of filenames))]\<rparr>)"
proof -
  have a: "ascii (last filenames)"
    using assms(1,2) by (simp add: list_all_iff)
  have "text_of (last filenames) = [] \<or> last (text_of (last filenames)) \<noteq> CHR '',''"
    using assms(3) ascii_comma [OF a] by (auto simp: text_of_def)
  then have "rstrip '','' (text_of (last filenames)) = text_of (last filenames)"
    by (cases "text_of (last filenames)" rule: rev_cases) (auto simp: rstrip_def)
  moreover have "butlast (map text_of filenames) @ [text_of (last filenames)] = map text_of filenames"
    using assms(1) append_butlast_last_id [of "map text_of filenames"]
    by (simp add: last_map)
  ultimately show ?thesis
    using assms(1,2) by (simp add: on_plot_files_ok filelist_of_join)
qed

lemma on_plot_files_example:
  "on_plot_files \<lparr>YES = 2, NO = 8, CANCEL = 16, ID_YES = 5103, ID_OK = 5100\<rparr> 5100
     [unicode_of ''a.csv'', unicode_of ''b.csv''] new_frame =
   (None, new_frame\<lparr>plot_filelist_calls := [''../Data/a.csv,../Data/b.csv'']\<rparr>)"
  by (simp add: on_plot_files_def plot_filelist_def filelist_of_def str_def ascii_unicode_of
      text_of_unicode_of rstrip_def new_frame_def)

lemma on_plot_files_not_ascii_example:
  "on_plot_files \<lparr>YES = 2, NO = 8, CANCEL = 16, ID_YES = 5103, ID_OK = 5100\<rparr> 5100
     [unicode_of ''a.csv'', unicode_of [CHR 0xE9, CHR ''.'', CHR ''c'', CHR ''s'', CHR ''v'']]
     new_frame =
   (Some (Exception ''UnicodeEncodeError''), new_frame)"
  by (simp add: on_plot_files_def filelist_of_def str_def ascii_unicode_of text_of_unicode_of)

text \<open>
  C4 (the code departs from it): the comment of the source says that \<^verbatim>\<open>rstrip\<close>
  removes the last comma, but it removes every comma at the end. For the selection
  \<open>a.csv,\<close> the loop builds \<open>../Data/a.csv,,\<close> and the string handed to the plotter is
  \<open>../Data/a.csv\<close>, not the prefixed filename \<open>../Data/a.csv,\<close>.
\<close>

theorem on_plot_files_comma_filename:
  "add_filenames [] [unicode_of ''a.csv,''] = Inr ''../Data/a.csv,,''
   \<and> comma_join (map with_prefix [''a.csv,'']) = ''../Data/a.csv,''
   \<and> on_plot_files \<lparr>YES = 2, NO = 8, CANCEL = 16, ID_YES = 5103, ID_OK = 5100\<rparr> 5100
       [unicode_of ''a.csv,''] new_frame =
     (None, new_frame\<lparr>plot_filelist_calls := [''../Data/a.csv'']\<rparr>)"
  by (simp add: on_plot_files_def plot_filelist_def filelist_of_def str_def ascii_unicode_of
      text_of_unicode_of rstrip_def with_prefix_def new_frame_def)

text \<open>
  C10: \<^verbatim>\<open>rstrip\<close> removes every comma at the end of the joined string, not only the
  separator. For a non-empty selection of ASCII filenames the string handed to the
  plotter is the join of the prefixed filenames with the last filename stripped of all
  its trailing commas (a selection with a filename that is not ASCII raises, and no
  string is handed over). So when the last filename ends in a comma it is changed, and
  the string is not the join of the filenames as they were selected.
\<close>

theorem on_plot_files_strips_commas:
  assumes "filenames \<noteq> []"
  shows "on_plot_files tk (ID_OK tk) filenames v =
           (if list_all ascii filenames then
              (None, v\<lparr>plot_filelist_calls := plot_filelist_calls v @
                 [comma_join (map with_prefix
                    (butlast (map text_of filenames) @
                       [rstrip '','' (text_of (last filenames))]))]\<rparr>)
            else (Some (Exception ''UnicodeEncodeError''), v))
         \<and> (last filenames \<noteq> [] \<and> last (last filenames) = 44 \<longrightarrow>
              rstrip '','' (text_of (last filenames)) \<noteq> text_of (last filenames)
              \<and> filelist_of filenames \<noteq>
                  Inr (comma_join (map with_prefix (map text_of filenames))))"
proof -
  have a: "on_plot_files tk (ID_OK tk) filenames v =
           (if list_all ascii filenames then
              (None, v\<lparr>plot_filelist_calls := plot_filelist_calls v @
                 [comma_join (map with_prefix
                    (butlast (map text_of filenames) @
                       [rstrip '','' (text_of (last filenames))]))]\<rparr>)
            else (Some (Exception ''UnicodeEncodeError''), v))"
    using assms by (simp add: on_plot_files_ok filelist_of_join filelist_of_not_ascii)
  have l: "text_of (last filenames) \<noteq> [] \<and> last (text_of (last filenames)) = CHR '',''"
    if "last filenames \<noteq> []" "last (last filenames) = 44"
    using that char_of_comma by (simp add: text_of_last)
  have b: "rstrip '','' (text_of (last filenames)) \<noteq> text_of (last filenames)"
    if "last filenames \<noteq> []" "last (last filenames) = 44"
    using l [OF that] rstrip_no_trailing [of "'',''" "text_of (last filenames)"] by auto
  have c: "filelist_of filenames \<noteq> Inr (comma_join (map with_prefix (map text_of filenames)))"
    if "last filenames \<noteq> []" "last (last filenames) = 44"
  proof
    assume eq: "filelist_of filenames = Inr (comma_join (map with_prefix (map text_of filenames)))"
    have "last (map with_prefix (map text_of filenames)) = ''../Data/'' @ text_of (last filenames)"
      using assms by (simp add: last_map with_prefix_def)
    then have "comma_join (map with_prefix (map text_of filenames)) \<noteq> []
        \<and> last (comma_join (map with_prefix (map text_of filenames))) = CHR '',''"
      using comma_join_last [of "map with_prefix (map text_of filenames)"] assms l [OF that]
      by simp
    then show False
      using filelist_of_no_trailing_comma [OF eq] by simp
  qed
  from a b c show ?thesis by blast
qed

theorem on_plot_files_strips_commas_witness:
  "[unicode_of ''a.csv'', unicode_of ''b.csv,,''] \<noteq> []
   \<and> last (last [unicode_of ''a.csv'', unicode_of ''b.csv,,'']) = 44
   \<and> on_plot_files \<lparr>YES = 2, NO = 8, CANCEL = 16, ID_YES = 5103, ID_OK = 5100\<rparr> 5100
       [unicode_of ''a.csv'', unicode_of ''b.csv,,''] new_frame =
     (None, new_frame\<lparr>plot_filelist_calls := [''../Data/a.csv,../Data/b.csv'']\<rparr>)
   \<and> filelist_of [unicode_of ''a.csv'', unicode_of ''b.csv,,''] \<noteq>
       Inr ''../Data/a.csv,../Data/b.csv,,''"
  using on_plot_files_strips_commas
    [of "[unicode_of ''a.csv'', unicode_of ''b.csv,,'']"
      "\<lparr>YES = 2, NO = 8, CANCEL = 16, ID_YES = 5103, ID_OK = 5100\<rparr>" new_frame]
  by (simp add: with_prefix_def new_frame_def rstrip_def ascii_unicode_of text_of_unicode_of
      last_unicode_of unicode_of_Nil)

end
